theory Spec2Isabelle
  imports Main
begin

section \<open>The panel component: data model\<close>

text \<open>
  The model follows \<open>panel.tsx\<close>. The class \<open>Panel\<close> becomes the record \<open>panel\<close>: one
  field for each property (\<open>@Prop\<close>) and each piece of internal state (\<open>@State\<close>) that the
  methods below read or write, under the name it has in the source. What the component does
  to the outside world (calling the \<open>beforeClose\<close> guard, emitting an event) is appended to
  the field \<open>trace\<close>; suspended \<open>close\<close> calls and requested animation frames are
  queues of the record, run by \<open>run_microtasks\<close> and \<open>run_animation_frame\<close>.
\<close>

subsection \<open>Promises, events, effects\<close>

text \<open>
  How the promise returned by a call of \<open>beforeClose: () => Promise<void>\<close> settles: it
  fulfils, it rejects with a reason, or it never settles.
\<close>

datatype promise_outcome = Fulfils | Rejects string | NeverSettles

datatype panel_event = calcitePanelClose | calcitePanelToggle | calcitePanelScroll

datatype effect = BeforeCloseCalled | Emitted panel_event

text \<open>The one callback the component hands to \<open>requestAnimationFrame\<close>: \<open>() => { this.closed = false; }\<close>.\<close>

datatype frame_callback = RevertClosed

subsection \<open>The scroll element\<close>

text \<open>
  \<open>panelScrollEl\<close>: the two measurements \<open>resizeHandler\<close> reads and the attributes it
  writes. A measurement is \<open>None\<close> when \<open>typeof\<close> of it is not \<open>"number"\<close>.
\<close>

record scroll_el =
  scrollHeight :: "int option"
  offsetHeight :: "int option"
  attributes :: "string \<rightharpoonup> string"

definition setAttribute :: "string \<Rightarrow> string \<Rightarrow> scroll_el \<Rightarrow> scroll_el" where
  "setAttribute name v el = el\<lparr>attributes := (attributes el)(name \<mapsto> v)\<rparr>"

definition removeAttribute :: "string \<Rightarrow> scroll_el \<Rightarrow> scroll_el" where
  "removeAttribute name el = el\<lparr>attributes := (attributes el)(name := None)\<rparr>"

subsection \<open>The component\<close>

text \<open>
  \<open>heading\<close> and \<open>description\<close> are declared without an initial value, so they are
  \<open>undefined\<close> (\<open>None\<close>) until set; \<open>beforeClose\<close> likewise. A guard is modelled by the
  outcome of the promise it returns.
\<close>

record panel =
  beforeClose :: "promise_outcome option"
  closed :: bool
  disabled :: bool
  closable :: bool
  collapsed :: bool
  collapsible :: bool
  loading :: bool
  heading :: "string option"
  description :: "string option"
  menuOpen :: bool
  panelScrollEl :: "scroll_el option"
  isClosed :: bool
  hasStartActions :: bool
  hasEndActions :: bool
  hasMenuItems :: bool
  hasHeaderContent :: bool
  hasActionBar :: bool
  hasContentBottom :: bool
  hasContentTop :: bool
  hasFab :: bool
  hasFooterActions :: bool
  hasFooterContent :: bool
  hasFooterEndContent :: bool
  hasFooterStartContent :: bool
  showHeaderContent :: bool
  trace :: "effect list"
  awaiting :: "promise_outcome list"
  animationFrames :: "frame_callback list"

text \<open>The component as its field initialisers leave it, with no guard and no scroll element yet.\<close>

definition initial_panel :: panel where
  "initial_panel =
     \<lparr>beforeClose = None, closed = False, disabled = False, closable = False,
      collapsed = False, collapsible = False, loading = False, heading = None,
      description = None, menuOpen = False, panelScrollEl = None, isClosed = False,
      hasStartActions = False, hasEndActions = False, hasMenuItems = False,
      hasHeaderContent = False, hasActionBar = False, hasContentBottom = False,
      hasContentTop = False, hasFab = False, hasFooterActions = False,
      hasFooterContent = False, hasFooterEndContent = False, hasFooterStartContent = False,
      showHeaderContent = False, trace = [], awaiting = [], animationFrames = []\<rparr>"

section \<open>The scroll affordance\<close>

text \<open>
  \<^verbatim>\<open>
  resizeHandler = (): void => {
    const { panelScrollEl } = this;
    if (!panelScrollEl || typeof panelScrollEl.scrollHeight !== "number" ||
        typeof panelScrollEl.offsetHeight !== "number") { return; }
    const hasScrollingContent = panelScrollEl.scrollHeight > panelScrollEl.offsetHeight;
    if (hasScrollingContent) { panelScrollEl.setAttribute("tabindex", "0"); }
    else { panelScrollEl.removeAttribute("tabindex"); }
  };
  \<close>
\<close>

definition resizeHandler :: "panel \<Rightarrow> panel" where
  "resizeHandler p =
     (case panelScrollEl p of
        None \<Rightarrow> p
      | Some el \<Rightarrow>
          (case scrollHeight el of
             None \<Rightarrow> p
           | Some sh \<Rightarrow>
               (case offsetHeight el of
                  None \<Rightarrow> p
                | Some oh \<Rightarrow>
                    (let hasScrollingContent = sh > oh in
                     if hasScrollingContent
                     then p\<lparr>panelScrollEl := Some (setAttribute ''tabindex'' ''0'' el)\<rparr>
                     else p\<lparr>panelScrollEl := Some (removeAttribute ''tabindex'' el)\<rparr>))))"

section \<open>The render tree\<close>

text \<open>
  The constants \<open>CSS\<close>, \<open>IDS\<close> and \<open>SLOTS\<close> come from \<open>./resources\<close>; their keys are
  the constructors below (the slot names are those of the component's doc comment). A virtual
  node keeps the tag, the classes, the \<open>id\<close>, the \<open>key\<close>, the \<open>hidden\<close> attribute, the
  \<open>onClick\<close> handler and the children; labels, icons, scale and ARIA attributes are left out.
  A \<open>null\<close> child is left out of the list of children.
\<close>

datatype css =
    CSS_container | CSS_header | CSS_headerContainer | CSS_headerContainerBorderEnd
  | CSS_headerContent | CSS_headerActionsStart | CSS_headerActionsEnd | CSS_headerActions
  | CSS_heading | CSS_description | CSS_actionBarContainer | CSS_contentWrapper
  | CSS_contentBottom | CSS_contentTop | CSS_fabContainer | CSS_footer | CSS_footerContent
  | CSS_footerStart | CSS_footerEnd | CSS_footerActions

datatype ids = IDS_collapse | IDS_close

datatype slots =
    SLOTS_actionBar | SLOTS_alerts | SLOTS_contentBottom | SLOTS_contentTop
  | SLOTS_headerActionsStart | SLOTS_headerActionsEnd | SLOTS_headerContent
  | SLOTS_headerMenuActions | SLOTS_fab | SLOTS_footer | SLOTS_footerActions
  | SLOTS_footerEnd | SLOTS_footerStart

datatype handler = Collapse | HandleUserClose

datatype vnode =
    Element (tag: string) (classes: "css list") (ident: "ids option") (key: "string option")
            (hidden: bool) (onClick: "handler option") (children: "vnode list")
  | Slot "slots option"
  | Text string

text \<open>A nullable node as a child: \<open>null\<close> renders nothing.\<close>

definition nullable :: "vnode option \<Rightarrow> vnode list" where
  "nullable n = (case n of None \<Rightarrow> [] | Some v \<Rightarrow> [v])"

text \<open>
  \<^verbatim>\<open>
  const headingNode = heading ? <Heading class={CSS.heading} ...>{heading}</Heading> : null;
  const descriptionNode = description ? <span class={CSS.description}>{description}</span> : null;
  return !hasHeaderContent && (headingNode || descriptionNode)
    ? <div class={CSS.headerContent} key="header-content">{headingNode}{descriptionNode}</div>
    : null;
  \<close>
  A \<open>string | undefined\<close> is truthy in JavaScript when it is defined and not empty:
  \<open>heading ? ... : null\<close> is a case distinction on the option and on the string.
\<close>

definition renderHeaderContent :: "panel \<Rightarrow> vnode option" where
  "renderHeaderContent p =
     (let headingNode =
            (case heading p of
               None \<Rightarrow> None
             | Some h \<Rightarrow>
                 if h = [] then None
                 else Some (Element ''Heading'' [CSS_heading] None None False None [Text h]));
          descriptionNode =
            (case description p of
               None \<Rightarrow> None
             | Some d \<Rightarrow>
                 if d = [] then None
                 else Some (Element ''span'' [CSS_description] None None False None [Text d]))
      in if \<not> hasHeaderContent p \<and> (headingNode \<noteq> None \<or> descriptionNode \<noteq> None)
         then Some (Element ''div'' [CSS_headerContent] None (Some ''header-content'') False None
                      (nullable headingNode @ nullable descriptionNode))
         else None)"

definition renderActionBar :: "panel \<Rightarrow> vnode" where
  "renderActionBar p =
     Element ''div'' [CSS_actionBarContainer] None None (\<not> hasActionBar p) None
       [Slot (Some SLOTS_actionBar)]"

definition renderHeaderSlottedContent :: "panel \<Rightarrow> vnode" where
  "renderHeaderSlottedContent p =
     Element ''div'' [CSS_headerContent] None (Some ''slotted-header-content'')
       (\<not> hasHeaderContent p) None [Slot (Some SLOTS_headerContent)]"

definition renderHeaderStartActions :: "panel \<Rightarrow> vnode" where
  "renderHeaderStartActions p =
     Element ''div'' [CSS_headerActionsStart, CSS_headerActions] None
       (Some ''header-actions-start'') (\<not> hasStartActions p) None
       [Slot (Some SLOTS_headerActionsStart)]"

definition renderMenu :: "panel \<Rightarrow> vnode" where
  "renderMenu p =
     Element ''calcite-action-menu'' [] None (Some ''menu'') (\<not> hasMenuItems p) None
       [Element ''calcite-action'' [] None None False None [],
        Slot (Some SLOTS_headerMenuActions)]"

definition renderHeaderActionsEnd :: "panel \<Rightarrow> vnode" where
  "renderHeaderActionsEnd p =
     (let collapseNode =
            (if collapsible p
             then Some (Element ''calcite-action'' [] (Some IDS_collapse) None False
                          (Some Collapse) [])
             else None);
          closeNode =
            (if closable p
             then Some (Element ''calcite-action'' [] (Some IDS_close) None False
                          (Some HandleUserClose) [])
             else None);
          slotNode = Slot (Some SLOTS_headerActionsEnd);
          showContainer =
            (hasEndActions p \<or> collapseNode \<noteq> None \<or> closeNode \<noteq> None \<or> hasMenuItems p)
      in Element ''div'' [CSS_headerActionsEnd, CSS_headerActions] None
           (Some ''header-actions-end'') (\<not> showContainer) None
           ([slotNode, renderMenu p] @ nullable collapseNode @ nullable closeNode))"

definition renderContentTop :: "panel \<Rightarrow> vnode" where
  "renderContentTop p =
     Element ''div'' [CSS_contentTop] None None (\<not> hasContentTop p) None
       [Slot (Some SLOTS_contentTop)]"

text \<open>
  \<^verbatim>\<open>
  const headerContentNode = this.renderHeaderContent();
  const showHeaderContent =
    hasHeaderContent || !!headerContentNode || hasStartActions || hasEndActions ||
    collapsible || closable || hasMenuItems;
  this.showHeaderContent = showHeaderContent;
  return (
    <header class={CSS.header} hidden={!(showHeaderContent || hasActionBar)}>
      <div class={{ [CSS.headerContainer]: true, [CSS.headerContainerBorderEnd]: hasActionBar }}
           hidden={!showHeaderContent}> ... </div>
      ...
  \<close>
  \<open>renderHeaderNode\<close> stores \<open>showHeaderContent\<close> in the component: it returns the node
  and the component.
\<close>

definition renderHeaderNode :: "panel \<Rightarrow> vnode \<times> panel" where
  "renderHeaderNode p =
     (let headerContentNode = renderHeaderContent p;
          showHeaderContent' =
            (hasHeaderContent p \<or> headerContentNode \<noteq> None \<or> hasStartActions p \<or>
             hasEndActions p \<or> collapsible p \<or> closable p \<or> hasMenuItems p);
          p' = p\<lparr>showHeaderContent := showHeaderContent'\<rparr>
      in (Element ''header'' [CSS_header] None None
            (\<not> (showHeaderContent' \<or> hasActionBar p')) None
            [Element ''div''
               (CSS_headerContainer #
                  (if hasActionBar p' then [CSS_headerContainerBorderEnd] else []))
               None None (\<not> showHeaderContent') None
               ([renderHeaderStartActions p', renderHeaderSlottedContent p'] @
                nullable headerContentNode @ [renderHeaderActionsEnd p']),
             renderActionBar p',
             renderContentTop p'],
          p'))"

definition renderFooterNode :: "panel \<Rightarrow> vnode" where
  "renderFooterNode p =
     (let showFooter =
            (hasFooterStartContent p \<or> hasFooterEndContent p \<or> hasFooterContent p \<or>
             hasFooterActions p)
      in Element ''footer'' [CSS_footer] None None (\<not> showFooter) None
           [Element ''div'' [CSS_footerContent] None None (\<not> hasFooterContent p) None
              [Slot (Some SLOTS_footer)],
            Element ''div'' [CSS_footerStart] None None
              (hasFooterContent p \<or> \<not> hasFooterStartContent p) None
              [Slot (Some SLOTS_footerStart)],
            Element ''div'' [CSS_footerEnd] None None
              (hasFooterContent p \<or> \<not> hasFooterEndContent p) None
              [Slot (Some SLOTS_footerEnd)],
            Element ''div'' [CSS_footerActions] None None
              (hasFooterContent p \<or> \<not> hasFooterActions p) None
              [Slot (Some SLOTS_footerActions)]])"

definition renderFab :: "panel \<Rightarrow> vnode" where
  "renderFab p =
     Element ''div'' [CSS_fabContainer] None None (\<not> hasFab p) None [Slot (Some SLOTS_fab)]"

definition renderContent :: "panel \<Rightarrow> vnode" where
  "renderContent p =
     Element ''div'' [CSS_contentWrapper] None None (collapsible p \<and> collapsed p) None
       [Slot None, renderFab p]"

definition renderContentBottom :: "panel \<Rightarrow> vnode" where
  "renderContentBottom p =
     Element ''div'' [CSS_contentBottom] None None (\<not> hasContentBottom p) None
       [Slot (Some SLOTS_contentBottom)]"

definition render :: "panel \<Rightarrow> vnode \<times> panel" where
  "render p =
     (let (headerNode, p') = renderHeaderNode p;
          panelNode =
            Element ''article'' [CSS_container] None None (isClosed p') None
              [headerNode, renderContent p', renderContentBottom p', renderFooterNode p',
               Slot (Some SLOTS_alerts)]
      in (Element ''Host'' [] None None False None
            [Element ''InteractiveContainer'' [] None None False None
               ((if loading p' then [Element ''calcite-scrim'' [] None None False None []]
                 else []) @ [panelNode])],
          p'))"

subsection \<open>Looking nodes up in the tree\<close>

text \<open>
  The first element in document order that satisfies a test; \<open>querySelector\<close> tests for a
  class, \<open>getElementById\<close> for an id, \<open>getElementByKey\<close> for a key.
\<close>

fun find_node :: "(vnode \<Rightarrow> bool) \<Rightarrow> vnode \<Rightarrow> vnode option"
  and find_in :: "(vnode \<Rightarrow> bool) \<Rightarrow> vnode list \<Rightarrow> vnode option" where
  "find_node P (Element t cs i k h oc ch) =
     (if P (Element t cs i k h oc ch) then Some (Element t cs i k h oc ch) else find_in P ch)"
| "find_node P (Slot n) = None"
| "find_node P (Text s) = None"
| "find_in P [] = None"
| "find_in P (n # ns) = (case find_node P n of Some r \<Rightarrow> Some r | None \<Rightarrow> find_in P ns)"

definition querySelector :: "css \<Rightarrow> vnode \<Rightarrow> vnode option" where
  "querySelector c t = find_node (\<lambda>n. c \<in> set (classes n)) t"

definition getElementById :: "ids \<Rightarrow> vnode \<Rightarrow> vnode option" where
  "getElementById x t = find_node (\<lambda>n. ident n = Some x) t"

definition getElementByKey :: "string \<Rightarrow> vnode \<Rightarrow> vnode option" where
  "getElementByKey k t = find_node (\<lambda>n. key n = Some k) t"

text \<open>The \<open>hidden\<close> attribute of the container with a given class in a rendered tree.\<close>

definition hidden_of :: "css \<Rightarrow> vnode \<Rightarrow> bool option" where
  "hidden_of c t = map_option hidden (querySelector c t)"

section \<open>Closing, opening, collapsing\<close>

text \<open>
  \<^verbatim>\<open>
  open = (): void => { this.isClosed = false; };

  close = async (): Promise<void> => {
    const beforeClose = this.beforeClose ?? (() => Promise.resolve());
    try { await beforeClose(); }
    catch (_error) {
      requestAnimationFrame(() => { this.closed = false; });
      return;
    }
    this.isClosed = true;
  };
  \<close>
  An \<open>async\<close> function runs synchronously up to its first \<open>await\<close>: \<open>close\<close> calls the
  guard and suspends on the promise the guard returned, which \<open>awaiting\<close> records (a call of
  the caller's guard is an effect of the trace; the default guard is not). The rest of the
  body, \<open>close_resume\<close>, runs as a microtask once that promise has settled; it returns how
  the promise of \<open>close\<close> itself settles, with the component. On a promise that never
  settles the body never resumes, and the promise of \<open>close\<close> never settles either.
  (\<open>open\<close> is a keyword of Isabelle: the method \<open>open\<close> is \<open>open_panel\<close> here.)
\<close>

definition open_panel :: "panel \<Rightarrow> panel" where
  "open_panel p = p\<lparr>isClosed := False\<rparr>"

definition close :: "panel \<Rightarrow> panel" where
  "close p =
     (case beforeClose p of
        None \<Rightarrow> p\<lparr>awaiting := awaiting p @ [Fulfils]\<rparr>
      | Some guard \<Rightarrow>
          p\<lparr>trace := trace p @ [BeforeCloseCalled], awaiting := awaiting p @ [guard]\<rparr>)"

fun close_resume :: "promise_outcome \<Rightarrow> panel \<Rightarrow> promise_outcome \<times> panel" where
  "close_resume Fulfils p = (Fulfils, p\<lparr>isClosed := True\<rparr>)"
| "close_resume (Rejects error) p =
     (Fulfils, p\<lparr>animationFrames := animationFrames p @ [RevertClosed]\<rparr>)"
| "close_resume NeverSettles p = (NeverSettles, p)"

text \<open>
  \<^verbatim>\<open>
  @Watch("closed")
  toggleDialog(value: boolean): void { value ? this.close() : this.open(); }
  \<close>
  The promise of \<open>close\<close> is dropped. Stencil calls the watchers of a property from inside
  the property's setter, synchronously, when the new value differs from the old one:
  \<open>set_closed\<close> is the assignment \<open>this.closed = value\<close>.
\<close>

definition toggleDialog :: "bool \<Rightarrow> panel \<Rightarrow> panel" where
  "toggleDialog v p = (if v then close p else open_panel p)"

definition set_closed :: "bool \<Rightarrow> panel \<Rightarrow> panel" where
  "set_closed v p = (if closed p = v then p else toggleDialog v (p\<lparr>closed := v\<rparr>))"

definition emit :: "panel_event \<Rightarrow> panel \<Rightarrow> panel" where
  "emit e p = p\<lparr>trace := trace p @ [Emitted e]\<rparr>"

text \<open>
  \<^verbatim>\<open>
  private handleUserClose = (): void => { this.closed = true; this.calcitePanelClose.emit(); };
  collapse = (): void => { this.collapsed = !this.collapsed; this.calcitePanelToggle.emit(); };
  panelScrollHandler = (): void => { this.calcitePanelScroll.emit(); };
  \<close>
\<close>

definition handleUserClose :: "panel \<Rightarrow> panel" where
  "handleUserClose p = emit calcitePanelClose (set_closed True p)"

definition collapse :: "panel \<Rightarrow> panel" where
  "collapse p = emit calcitePanelToggle (p\<lparr>collapsed := \<not> collapsed p\<rparr>)"

definition panelScrollHandler :: "panel \<Rightarrow> panel" where
  "panelScrollHandler p = emit calcitePanelScroll p"

text \<open>
  \<^verbatim>\<open>
  panelKeyDownHandler = (event: KeyboardEvent): void => {
    if (this.closable && event.key === "Escape" && !event.defaultPrevented) {
      this.handleUserClose();
      event.preventDefault();
    }
  };
  \<close>
  The field \<open>key_name\<close> is \<open>event.key\<close>.
\<close>

record keyboard_event =
  key_name :: string
  defaultPrevented :: bool

definition panelKeyDownHandler :: "keyboard_event \<Rightarrow> panel \<Rightarrow> keyboard_event \<times> panel" where
  "panelKeyDownHandler event p =
     (if closable p \<and> key_name event = ''Escape'' \<and> \<not> defaultPrevented event
      then (event\<lparr>defaultPrevented := True\<rparr>, handleUserClose p)
      else (event, p))"

subsection \<open>The event loop\<close>

text \<open>
  After a handler has returned, the suspended \<open>close\<close> calls resume in the order in which
  they suspended. An animation frame runs the callbacks requested so far. A guard whose
  promise settles later resumes its \<open>close\<close> later, in whatever state the component is in
  by then: \<open>close_resume\<close> is defined on every state.
\<close>

definition run_microtasks :: "panel \<Rightarrow> panel" where
  "run_microtasks p =
     fold (\<lambda>outcome q. snd (close_resume outcome q)) (awaiting p) (p\<lparr>awaiting := []\<rparr>)"

fun run_callback :: "frame_callback \<Rightarrow> panel \<Rightarrow> panel" where
  "run_callback RevertClosed p = set_closed False p"

definition run_animation_frame :: "panel \<Rightarrow> panel" where
  "run_animation_frame p = fold run_callback (animationFrames p) (p\<lparr>animationFrames := []\<rparr>)"

text \<open>
  A click delivered to the element with the given id of a rendered tree runs the element's
  \<open>onClick\<close> handler, then the microtasks. Whether a click can reach the element (the
  panel may be disabled, or hidden) is decided outside the component.
\<close>

fun run_handler :: "handler \<Rightarrow> panel \<Rightarrow> panel" where
  "run_handler Collapse p = collapse p"
| "run_handler HandleUserClose p = handleUserClose p"

definition click :: "ids \<Rightarrow> vnode \<Rightarrow> panel \<Rightarrow> panel" where
  "click x t p =
     (case getElementById x t of
        None \<Rightarrow> p
      | Some n \<Rightarrow>
          (case n of
             Element tg cs i k h oc ch \<Rightarrow>
               (case oc of None \<Rightarrow> p | Some f \<Rightarrow> run_microtasks (run_handler f p))
           | Slot s \<Rightarrow> p
           | Text s \<Rightarrow> p))"

text \<open>A key press on the host, likewise.\<close>

definition keydown :: "keyboard_event \<Rightarrow> panel \<Rightarrow> keyboard_event \<times> panel" where
  "keydown event p = (let (event', p') = panelKeyDownHandler event p in (event', run_microtasks p'))"

section \<open>Slot changes\<close>

text \<open>
  The handlers receive a \<open>slotchange\<close> event; the elements assigned to the event's slot
  live in the document, a store from references to elements, since
  \<open>handleActionBarSlotChange\<close> and \<open>handleAlertsSlotChange\<close> write to them.
\<close>

type_synonym ref = nat

record element =
  localName :: string
  nodeName :: string
  layout :: "string option"
  embedded :: bool

type_synonym document = "ref \<rightharpoonup> element"

text \<open>The event: the elements currently assigned to the slot it was fired on, in order.\<close>

record slot_event =
  assignedElements :: "ref list"

text \<open>
  Modelled from the spec: \<open>slotChangeGetAssignedElements\<close> of \<open>utils/dom\<close> is not part
  of the sources at hand; a handler "inspects currently assigned elements" of the slot that
  changed.
\<close>

definition slotChangeGetAssignedElements :: "slot_event \<Rightarrow> ref list" where
  "slotChangeGetAssignedElements event = assignedElements event"

text \<open>
  Modelled from the spec: \<open>slotChangeHasAssignedElement\<close> of \<open>utils/dom\<close> is not part
  of the sources at hand; it says whether the slot "has at least one assigned element".
\<close>

definition slotChangeHasAssignedElement :: "slot_event \<Rightarrow> bool" where
  "slotChangeHasAssignedElement event = (slotChangeGetAssignedElements event \<noteq> [])"

definition handleHeaderActionsStartSlotChange :: "slot_event \<Rightarrow> panel \<Rightarrow> panel" where
  "handleHeaderActionsStartSlotChange event p =
     p\<lparr>hasStartActions := slotChangeHasAssignedElement event\<rparr>"

definition handleHeaderActionsEndSlotChange :: "slot_event \<Rightarrow> panel \<Rightarrow> panel" where
  "handleHeaderActionsEndSlotChange event p =
     p\<lparr>hasEndActions := slotChangeHasAssignedElement event\<rparr>"

definition handleHeaderMenuActionsSlotChange :: "slot_event \<Rightarrow> panel \<Rightarrow> panel" where
  "handleHeaderMenuActionsSlotChange event p =
     p\<lparr>hasMenuItems := slotChangeHasAssignedElement event\<rparr>"

text \<open>
  \<^verbatim>\<open>
  handleActionBarSlotChange = (event: Event): void => {
    const actionBars = slotChangeGetAssignedElements(event).filter((el) =>
      el?.matches("calcite-action-bar"),
    ) as HTMLCalciteActionBarElement[];
    actionBars.forEach((actionBar) => (actionBar.layout = "horizontal"));
    this.hasActionBar = !!actionBars.length;
  };
  \<close>
  \<open>el?.matches(s)\<close> with a type selector: the reference is to an element whose local name
  is \<open>s\<close>; a reference to nothing gives \<open>undefined\<close>, which \<open>filter\<close> drops.
\<close>

definition matches :: "document \<Rightarrow> ref \<Rightarrow> string \<Rightarrow> bool" where
  "matches d el selector = (case d el of None \<Rightarrow> False | Some e \<Rightarrow> localName e = selector)"

definition set_layout :: "string \<Rightarrow> ref \<Rightarrow> document \<Rightarrow> document" where
  "set_layout v el d = (case d el of None \<Rightarrow> d | Some e \<Rightarrow> d(el \<mapsto> e\<lparr>layout := Some v\<rparr>))"

definition handleActionBarSlotChange :: "slot_event \<Rightarrow> document \<times> panel \<Rightarrow> document \<times> panel" where
  "handleActionBarSlotChange event dp =
     (let actionBars =
            filter (\<lambda>el. matches (fst dp) el ''calcite-action-bar'')
              (slotChangeGetAssignedElements event);
          d' = fold (set_layout ''horizontal'') actionBars (fst dp)
      in (d', (snd dp)\<lparr>hasActionBar := (length actionBars \<noteq> 0)\<rparr>))"

definition handleHeaderContentSlotChange :: "slot_event \<Rightarrow> panel \<Rightarrow> panel" where
  "handleHeaderContentSlotChange event p =
     p\<lparr>hasHeaderContent := slotChangeHasAssignedElement event\<rparr>"

definition handleFabSlotChange :: "slot_event \<Rightarrow> panel \<Rightarrow> panel" where
  "handleFabSlotChange event p = p\<lparr>hasFab := slotChangeHasAssignedElement event\<rparr>"

definition handleFooterActionsSlotChange :: "slot_event \<Rightarrow> panel \<Rightarrow> panel" where
  "handleFooterActionsSlotChange event p =
     p\<lparr>hasFooterActions := slotChangeHasAssignedElement event\<rparr>"

definition handleFooterEndSlotChange :: "slot_event \<Rightarrow> panel \<Rightarrow> panel" where
  "handleFooterEndSlotChange event p =
     p\<lparr>hasFooterEndContent := slotChangeHasAssignedElement event\<rparr>"

definition handleFooterStartSlotChange :: "slot_event \<Rightarrow> panel \<Rightarrow> panel" where
  "handleFooterStartSlotChange event p =
     p\<lparr>hasFooterStartContent := slotChangeHasAssignedElement event\<rparr>"

definition handleFooterSlotChange :: "slot_event \<Rightarrow> panel \<Rightarrow> panel" where
  "handleFooterSlotChange event p =
     p\<lparr>hasFooterContent := slotChangeHasAssignedElement event\<rparr>"

definition contentBottomSlotChangeHandler :: "slot_event \<Rightarrow> panel \<Rightarrow> panel" where
  "contentBottomSlotChangeHandler event p =
     p\<lparr>hasContentBottom := slotChangeHasAssignedElement event\<rparr>"

definition contentTopSlotChangeHandler :: "slot_event \<Rightarrow> panel \<Rightarrow> panel" where
  "contentTopSlotChangeHandler event p =
     p\<lparr>hasContentTop := slotChangeHasAssignedElement event\<rparr>"

text \<open>
  \<^verbatim>\<open>
  handleAlertsSlotChange = (event: Event): void => {
    slotChangeGetAssignedElements(event)?.map((el) => {
      if (el.nodeName === "CALCITE-ALERT") { (el as HTMLCalciteAlertElement).embedded = true; }
    });
  };
  \<close>
\<close>

definition set_embedded :: "ref \<Rightarrow> document \<Rightarrow> document" where
  "set_embedded el d =
     (case d el of
        None \<Rightarrow> d
      | Some e \<Rightarrow> if nodeName e = ''CALCITE-ALERT'' then d(el \<mapsto> e\<lparr>embedded := True\<rparr>) else d)"

definition handleAlertsSlotChange :: "slot_event \<Rightarrow> document \<times> panel \<Rightarrow> document \<times> panel" where
  "handleAlertsSlotChange event dp =
     (fold set_embedded (slotChangeGetAssignedElements event) (fst dp), snd dp)"

text \<open>
  The handler that the render functions put on each named slot (\<open>onSlotchange\<close>), and the
  presence flag that the handler of a slot assigns; the \<open>alerts\<close> slot has none.
\<close>

fun slotchange :: "slots \<Rightarrow> slot_event \<Rightarrow> document \<times> panel \<Rightarrow> document \<times> panel" where
  "slotchange SLOTS_actionBar event dp = handleActionBarSlotChange event dp"
| "slotchange SLOTS_alerts event dp = handleAlertsSlotChange event dp"
| "slotchange SLOTS_contentBottom event dp = (fst dp, contentBottomSlotChangeHandler event (snd dp))"
| "slotchange SLOTS_contentTop event dp = (fst dp, contentTopSlotChangeHandler event (snd dp))"
| "slotchange SLOTS_headerActionsStart event dp =
     (fst dp, handleHeaderActionsStartSlotChange event (snd dp))"
| "slotchange SLOTS_headerActionsEnd event dp =
     (fst dp, handleHeaderActionsEndSlotChange event (snd dp))"
| "slotchange SLOTS_headerContent event dp = (fst dp, handleHeaderContentSlotChange event (snd dp))"
| "slotchange SLOTS_headerMenuActions event dp =
     (fst dp, handleHeaderMenuActionsSlotChange event (snd dp))"
| "slotchange SLOTS_fab event dp = (fst dp, handleFabSlotChange event (snd dp))"
| "slotchange SLOTS_footer event dp = (fst dp, handleFooterSlotChange event (snd dp))"
| "slotchange SLOTS_footerActions event dp = (fst dp, handleFooterActionsSlotChange event (snd dp))"
| "slotchange SLOTS_footerEnd event dp = (fst dp, handleFooterEndSlotChange event (snd dp))"
| "slotchange SLOTS_footerStart event dp = (fst dp, handleFooterStartSlotChange event (snd dp))"

fun presence_flag :: "slots \<Rightarrow> panel \<Rightarrow> bool option" where
  "presence_flag SLOTS_actionBar p = Some (hasActionBar p)"
| "presence_flag SLOTS_alerts p = None"
| "presence_flag SLOTS_contentBottom p = Some (hasContentBottom p)"
| "presence_flag SLOTS_contentTop p = Some (hasContentTop p)"
| "presence_flag SLOTS_headerActionsStart p = Some (hasStartActions p)"
| "presence_flag SLOTS_headerActionsEnd p = Some (hasEndActions p)"
| "presence_flag SLOTS_headerContent p = Some (hasHeaderContent p)"
| "presence_flag SLOTS_headerMenuActions p = Some (hasMenuItems p)"
| "presence_flag SLOTS_fab p = Some (hasFab p)"
| "presence_flag SLOTS_footer p = Some (hasFooterContent p)"
| "presence_flag SLOTS_footerActions p = Some (hasFooterActions p)"
| "presence_flag SLOTS_footerEnd p = Some (hasFooterEndContent p)"
| "presence_flag SLOTS_footerStart p = Some (hasFooterStartContent p)"

section \<open>Concrete components and events\<close>

text \<open>A component with only a heading; one with a guard that fulfils; one whose guard rejects.\<close>

definition titled_panel :: panel where
  "titled_panel = initial_panel\<lparr>heading := Some ''Title''\<rparr>"

definition guarded_panel :: panel where
  "guarded_panel = initial_panel\<lparr>beforeClose := Some Fulfils, closable := True\<rparr>"

definition vetoing_panel :: panel where
  "vetoing_panel = initial_panel\<lparr>beforeClose := Some (Rejects ''unsaved changes'')\<rparr>"

text \<open>Scroll elements: content taller than the region, and content that just fits.\<close>

definition overflowing_el :: scroll_el where
  "overflowing_el = \<lparr>scrollHeight = Some 500, offsetHeight = Some 300, attributes = Map.empty\<rparr>"

definition fitting_el :: scroll_el where
  "fitting_el =
     \<lparr>scrollHeight = Some 300, offsetHeight = Some 300, attributes = [''tabindex'' \<mapsto> ''0'']\<rparr>"

definition unmeasured_el :: scroll_el where
  "unmeasured_el = \<lparr>scrollHeight = None, offsetHeight = Some 300, attributes = Map.empty\<rparr>"

text \<open>A document with an action bar and a \<open>div\<close>, and slot events over it.\<close>

definition action_bar_el :: element where
  "action_bar_el =
     \<lparr>localName = ''calcite-action-bar'', nodeName = ''CALCITE-ACTION-BAR'',
      layout = Some ''vertical'', embedded = False\<rparr>"

definition div_el :: element where
  "div_el = \<lparr>localName = ''div'', nodeName = ''DIV'', layout = None, embedded = False\<rparr>"

definition mixed_document :: document where
  "mixed_document = [0 \<mapsto> action_bar_el, 1 \<mapsto> div_el]"

definition mixed_event :: slot_event where
  "mixed_event = \<lparr>assignedElements = [0, 1]\<rparr>"

definition div_event :: slot_event where
  "div_event = \<lparr>assignedElements = [1]\<rparr>"

definition empty_event :: slot_event where
  "empty_event = \<lparr>assignedElements = []\<rparr>"

definition escape_key :: keyboard_event where
  "escape_key = \<lparr>key_name = ''Escape'', defaultPrevented = False\<rparr>"

section \<open>Properties of the render tree\<close>

lemmas render_defs =
  render_def renderHeaderNode_def renderHeaderContent_def renderActionBar_def
  renderHeaderSlottedContent_def renderHeaderStartActions_def renderMenu_def
  renderHeaderActionsEnd_def renderContentTop_def renderFooterNode_def renderFab_def
  renderContent_def renderContentBottom_def nullable_def hidden_of_def querySelector_def
  getElementById_def getElementByKey_def

lemma snd_render:
  "snd (render p) =
     p\<lparr>showHeaderContent :=
         (hasHeaderContent p \<or> renderHeaderContent p \<noteq> None \<or> hasStartActions p \<or>
          hasEndActions p \<or> collapsible p \<or> closable p \<or> hasMenuItems p)\<rparr>"
  by (simp add: render_def renderHeaderNode_def Let_def)

lemma collapse_action_rendered:
  "collapsible p \<Longrightarrow>
     getElementById IDS_collapse (fst (render p)) =
       Some (Element ''calcite-action'' [] (Some IDS_collapse) None False (Some Collapse) [])"
  by (auto simp add: render_defs Let_def split: option.splits)

lemma close_action_rendered:
  "closable p \<Longrightarrow>
     getElementById IDS_close (fst (render p)) =
       Some (Element ''calcite-action'' [] (Some IDS_close) None False (Some HandleUserClose) [])"
  by (auto simp add: render_defs Let_def split: option.splits)

text \<open>
  C3, as stated, fails: a component with a heading and nothing else shows its header (both the
  \<open>header\<close> element and the header container), though it has no slotted header content, no
  start or end actions, no menu items, and is neither collapsible nor closable.
\<close>

theorem header_hidden_without_flags_counterexample:
  "hidden_of CSS_headerContainer (fst (render titled_panel)) = Some False \<and>
   hidden_of CSS_header (fst (render titled_panel)) = Some False \<and>
   \<not> (hasHeaderContent titled_panel \<or> hasStartActions titled_panel \<or>
      hasEndActions titled_panel \<or> collapsible titled_panel \<or> closable titled_panel \<or>
      hasMenuItems titled_panel)"
  by (simp add: titled_panel_def initial_panel_def render_defs Let_def)

text \<open>
  C3, amended: at every render the header container is visible if and only if slotted header
  content is present, start actions are present, end actions are present, the panel is
  collapsible, the panel is closable, menu items are present, or the \<open>heading\<close> or the
  \<open>description\<close> property is a non-empty string.
\<close>

theorem header_container_hidden:
  "hidden_of CSS_headerContainer (fst (render p)) =
     Some (\<not> (hasHeaderContent p \<or> hasStartActions p \<or> hasEndActions p \<or> collapsible p \<or>
              closable p \<or> hasMenuItems p \<or>
              (heading p \<noteq> None \<and> heading p \<noteq> Some []) \<or>
              (description p \<noteq> None \<and> description p \<noteq> Some [])))"
  by (auto simp add: render_defs Let_def split: option.splits)

text \<open>
  C3, at concrete components: hidden with every flag false and no heading or description,
  visible with each of the flags alone, and with a heading alone.
\<close>

theorem header_container_hidden_witness:
  "hidden_of CSS_headerContainer (fst (render initial_panel)) = Some True \<and>
   hidden_of CSS_headerContainer (fst (render (initial_panel\<lparr>hasHeaderContent := True\<rparr>))) =
     Some False \<and>
   hidden_of CSS_headerContainer (fst (render (initial_panel\<lparr>hasStartActions := True\<rparr>))) =
     Some False \<and>
   hidden_of CSS_headerContainer (fst (render (initial_panel\<lparr>hasEndActions := True\<rparr>))) =
     Some False \<and>
   hidden_of CSS_headerContainer (fst (render (initial_panel\<lparr>collapsible := True\<rparr>))) =
     Some False \<and>
   hidden_of CSS_headerContainer (fst (render (initial_panel\<lparr>closable := True\<rparr>))) =
     Some False \<and>
   hidden_of CSS_headerContainer (fst (render (initial_panel\<lparr>hasMenuItems := True\<rparr>))) =
     Some False \<and>
   hidden_of CSS_headerContainer (fst (render (initial_panel\<lparr>heading := Some ''Title''\<rparr>))) =
     Some False"
  using header_container_hidden [of initial_panel]
    header_container_hidden [of "initial_panel\<lparr>hasHeaderContent := True\<rparr>"]
    header_container_hidden [of "initial_panel\<lparr>hasStartActions := True\<rparr>"]
    header_container_hidden [of "initial_panel\<lparr>hasEndActions := True\<rparr>"]
    header_container_hidden [of "initial_panel\<lparr>collapsible := True\<rparr>"]
    header_container_hidden [of "initial_panel\<lparr>closable := True\<rparr>"]
    header_container_hidden [of "initial_panel\<lparr>hasMenuItems := True\<rparr>"]
    header_container_hidden [of "initial_panel\<lparr>heading := Some ''Title''\<rparr>"]
  by (simp add: initial_panel_def)

text \<open>
  C4: at every render, each of the footer-start, footer-end and footer-actions regions is
  hidden when the generic footer slot has content, whatever its own presence flag; when the
  generic footer slot is empty, it is hidden exactly when its own presence flag is false.
\<close>

theorem footer_regions_hidden:
  "(hasFooterContent p \<longrightarrow>
      hidden_of CSS_footerStart (fst (render p)) = Some True \<and>
      hidden_of CSS_footerEnd (fst (render p)) = Some True \<and>
      hidden_of CSS_footerActions (fst (render p)) = Some True) \<and>
   (\<not> hasFooterContent p \<longrightarrow>
      hidden_of CSS_footerStart (fst (render p)) = Some (\<not> hasFooterStartContent p) \<and>
      hidden_of CSS_footerEnd (fst (render p)) = Some (\<not> hasFooterEndContent p) \<and>
      hidden_of CSS_footerActions (fst (render p)) = Some (\<not> hasFooterActions p))"
  by (simp add: render_defs Let_def split: option.splits)

text \<open>
  C4, at concrete components: with all four footer slots filled the three regions are hidden;
  with only footer-start filled, footer-start shows and the other two are hidden.
\<close>

theorem footer_regions_hidden_witness:
  "hidden_of CSS_footerStart
     (fst (render (initial_panel\<lparr>hasFooterActions := True, hasFooterContent := True,
        hasFooterEndContent := True, hasFooterStartContent := True\<rparr>))) = Some True \<and>
   hidden_of CSS_footerEnd
     (fst (render (initial_panel\<lparr>hasFooterActions := True, hasFooterContent := True,
        hasFooterEndContent := True, hasFooterStartContent := True\<rparr>))) = Some True \<and>
   hidden_of CSS_footerActions
     (fst (render (initial_panel\<lparr>hasFooterActions := True, hasFooterContent := True,
        hasFooterEndContent := True, hasFooterStartContent := True\<rparr>))) = Some True \<and>
   hidden_of CSS_footerStart (fst (render (initial_panel\<lparr>hasFooterStartContent := True\<rparr>))) =
     Some False \<and>
   hidden_of CSS_footerEnd (fst (render (initial_panel\<lparr>hasFooterStartContent := True\<rparr>))) =
     Some True \<and>
   hidden_of CSS_footerActions (fst (render (initial_panel\<lparr>hasFooterStartContent := True\<rparr>))) =
     Some True"
  using footer_regions_hidden
      [of "initial_panel\<lparr>hasFooterActions := True, hasFooterContent := True,
             hasFooterEndContent := True, hasFooterStartContent := True\<rparr>"]
    footer_regions_hidden [of "initial_panel\<lparr>hasFooterStartContent := True\<rparr>"]
  by (simp add: initial_panel_def)

text \<open>
  C9: at every render the content wrapper is hidden if and only if the panel is both
  collapsible and collapsed.
\<close>

theorem content_wrapper_hidden:
  "hidden_of CSS_contentWrapper (fst (render p)) = Some (collapsible p \<and> collapsed p)"
  by (simp add: render_defs Let_def split: option.splits)

text \<open>
  C9, at concrete components: collapsed but not collapsible leaves the content visible;
  collapsed and collapsible hides it.
\<close>

theorem content_wrapper_hidden_witness:
  "hidden_of CSS_contentWrapper (fst (render (initial_panel\<lparr>collapsed := True\<rparr>))) =
     Some False \<and>
   hidden_of CSS_contentWrapper
     (fst (render (initial_panel\<lparr>collapsed := True, collapsible := True\<rparr>))) = Some True"
  using content_wrapper_hidden [of "initial_panel\<lparr>collapsed := True\<rparr>"]
    content_wrapper_hidden [of "initial_panel\<lparr>collapsed := True, collapsible := True\<rparr>"]
  by (simp add: initial_panel_def)

text \<open>
  C10: at every render the block built from the \<open>heading\<close> and \<open>description\<close> properties
  (the node with key \<open>header-content\<close>) is in the tree if and only if the header-content slot
  has no assigned content and the heading or the description is a non-empty string.
\<close>

theorem header_content_block_rendered:
  "getElementByKey ''header-content'' (fst (render p)) = renderHeaderContent p \<and>
   (renderHeaderContent p \<noteq> None) =
     (\<not> hasHeaderContent p \<and>
      ((heading p \<noteq> None \<and> heading p \<noteq> Some []) \<or>
       (description p \<noteq> None \<and> description p \<noteq> Some [])))"
  by (auto simp add: render_defs Let_def split: option.splits)

text \<open>
  C10, at concrete components: a heading alone gives the block; the same heading with slotted
  header content, or an empty heading, gives none.
\<close>

theorem header_content_block_rendered_witness:
  "getElementByKey ''header-content'' (fst (render titled_panel)) =
     Some (Element ''div'' [CSS_headerContent] None (Some ''header-content'') False None
             [Element ''Heading'' [CSS_heading] None None False None [Text ''Title'']]) \<and>
   getElementByKey ''header-content'' (fst (render (titled_panel\<lparr>hasHeaderContent := True\<rparr>))) =
     None \<and>
   getElementByKey ''header-content'' (fst (render (initial_panel\<lparr>heading := Some []\<rparr>))) = None"
  using header_content_block_rendered [of titled_panel]
    header_content_block_rendered [of "titled_panel\<lparr>hasHeaderContent := True\<rparr>"]
    header_content_block_rendered [of "initial_panel\<lparr>heading := Some []\<rparr>"]
  by (simp add: titled_panel_def initial_panel_def renderHeaderContent_def nullable_def)

section \<open>Properties of the scroll affordance\<close>

text \<open>
  C6: on a resize notification with a scroll element whose two heights are numbers, the
  \<open>tabindex\<close> attribute is set to \<open>"0"\<close> if the scroll height is strictly greater than the
  visible height, and removed if it is equal or less; nothing else changes. With no scroll
  element, or a height that is not a number, the handler changes nothing.
\<close>

theorem resizeHandler_tabindex:
  "(panelScrollEl p = Some el \<and> scrollHeight el = Some sh \<and> offsetHeight el = Some oh \<and>
    sh > oh \<longrightarrow>
      resizeHandler p =
        p\<lparr>panelScrollEl := Some (el\<lparr>attributes := (attributes el)(''tabindex'' \<mapsto> ''0'')\<rparr>)\<rparr>) \<and>
   (panelScrollEl p = Some el \<and> scrollHeight el = Some sh \<and> offsetHeight el = Some oh \<and>
    sh \<le> oh \<longrightarrow>
      resizeHandler p =
        p\<lparr>panelScrollEl := Some (el\<lparr>attributes := (attributes el)(''tabindex'' := None)\<rparr>)\<rparr>) \<and>
   (panelScrollEl p = None \<or>
    (panelScrollEl p = Some el \<and> (scrollHeight el = None \<or> offsetHeight el = None)) \<longrightarrow>
      resizeHandler p = p)"
  by (auto simp add: resizeHandler_def setAttribute_def removeAttribute_def Let_def
      split: option.splits)

text \<open>
  C6, at concrete elements: 500 over 300 sets \<open>tabindex\<close>; 300 over 300 removes the
  \<open>tabindex\<close> that was there; a missing scroll height and a missing element change nothing.
\<close>

theorem resizeHandler_tabindex_witness:
  "map_option (\<lambda>el. attributes el ''tabindex'')
     (panelScrollEl (resizeHandler (initial_panel\<lparr>panelScrollEl := Some overflowing_el\<rparr>))) =
     Some (Some ''0'') \<and>
   map_option (\<lambda>el. attributes el ''tabindex'')
     (panelScrollEl (resizeHandler (initial_panel\<lparr>panelScrollEl := Some fitting_el\<rparr>))) =
     Some None \<and>
   resizeHandler (initial_panel\<lparr>panelScrollEl := Some unmeasured_el\<rparr>) =
     initial_panel\<lparr>panelScrollEl := Some unmeasured_el\<rparr> \<and>
   resizeHandler initial_panel = initial_panel"
  using resizeHandler_tabindex
      [of "initial_panel\<lparr>panelScrollEl := Some overflowing_el\<rparr>" overflowing_el 500 300]
    resizeHandler_tabindex
      [of "initial_panel\<lparr>panelScrollEl := Some fitting_el\<rparr>" fitting_el 300 300]
    resizeHandler_tabindex
      [of "initial_panel\<lparr>panelScrollEl := Some unmeasured_el\<rparr>" unmeasured_el 0 0]
    resizeHandler_tabindex [of initial_panel unmeasured_el 0 0]
  by (simp add: initial_panel_def overflowing_el_def fitting_el_def unmeasured_el_def)

section \<open>Properties of closing and collapsing\<close>

lemma close_resume_keeps:
  "trace (snd (close_resume outcome q)) = trace q"
  "collapsed (snd (close_resume outcome q)) = collapsed q"
  "closed (snd (close_resume outcome q)) = closed q"
  by (cases outcome; simp)+

lemma fold_close_resume_keeps:
  "trace (fold (\<lambda>outcome q. snd (close_resume outcome q)) os q) = trace q \<and>
   collapsed (fold (\<lambda>outcome q. snd (close_resume outcome q)) os q) = collapsed q \<and>
   closed (fold (\<lambda>outcome q. snd (close_resume outcome q)) os q) = closed q"
  by (induction os arbitrary: q) (simp_all add: close_resume_keeps)

lemma run_microtasks_keeps:
  "trace (run_microtasks p) = trace p"
  "collapsed (run_microtasks p) = collapsed p"
  "closed (run_microtasks p) = closed p"
  by (simp_all add: run_microtasks_def fold_close_resume_keeps)

text \<open>Running the revert callbacks: \<open>closed\<close> ends false, and the watcher opens a component whose \<open>closed\<close> was true.\<close>

lemma fold_run_callback:
  "closed (fold run_callback cs q) = (if cs = [] then closed q else False) \<and>
   isClosed (fold run_callback cs q) =
     (if cs = [] then isClosed q else (\<not> closed q \<and> isClosed q))"
proof (induction cs arbitrary: q)
  case Nil
  show ?case by simp
next
  case (Cons c cs)
  show ?case
    by (cases c) (auto simp add: Cons.IH set_closed_def toggleDialog_def open_panel_def)
qed

lemma run_animation_frame_reverts:
  "animationFrames q \<noteq> [] \<Longrightarrow>
     \<not> closed (run_animation_frame q) \<and>
     isClosed (run_animation_frame q) = (\<not> closed q \<and> isClosed q)"
  by (simp add: run_animation_frame_def fold_run_callback)

lemma close_rejected:
  "beforeClose p = Some (Rejects r) \<Longrightarrow> awaiting p = [] \<Longrightarrow>
     run_microtasks (close p) =
       p\<lparr>trace := trace p @ [BeforeCloseCalled],
         animationFrames := animationFrames p @ [RevertClosed]\<rparr>"
  by (simp add: run_microtasks_def close_def)

lemma close_fulfilled:
  "beforeClose p = None \<or> beforeClose p = Some Fulfils \<Longrightarrow> isClosed (run_microtasks (close p))"
  by (auto simp add: run_microtasks_def close_def)

text \<open>
  C1: for every close request (\<open>close\<close>, which the watcher of \<open>closed\<close> calls when
  \<open>closed\<close> becomes true): if there is no guard or the guard's promise fulfils, \<open>isClosed\<close>
  is true once the request has resumed. If the guard's promise rejects, the resumed request
  leaves \<open>isClosed\<close> and \<open>closed\<close> as they were and only requests an animation frame; the
  frame then sets \<open>closed\<close> to false, and a component that was open is still open. The
  promise of \<open>close\<close> fulfils and the state after the rejection holds nothing of the
  reason: the rejection is swallowed.
\<close>

theorem close_guard_outcome:
  "toggleDialog True p = close p \<and>
   (beforeClose p = None \<or> beforeClose p = Some Fulfils \<longrightarrow>
      isClosed (run_microtasks (close p))) \<and>
   (beforeClose p = Some (Rejects r) \<and> awaiting p = [] \<longrightarrow>
      isClosed (run_microtasks (close p)) = isClosed p \<and>
      closed (run_microtasks (close p)) = closed p \<and>
      animationFrames (run_microtasks (close p)) = animationFrames p @ [RevertClosed] \<and>
      trace (run_microtasks (close p)) = trace p @ [BeforeCloseCalled] \<and>
      \<not> closed (run_animation_frame (run_microtasks (close p))) \<and>
      isClosed (run_animation_frame (run_microtasks (close p))) =
        (\<not> closed p \<and> isClosed p)) \<and>
   close_resume Fulfils p = (Fulfils, p\<lparr>isClosed := True\<rparr>) \<and>
   close_resume (Rejects r) p =
     (Fulfils, p\<lparr>animationFrames := animationFrames p @ [RevertClosed]\<rparr>)"
proof (intro conjI impI)
  show "toggleDialog True p = close p"
    by (simp add: toggleDialog_def)
next
  assume "beforeClose p = None \<or> beforeClose p = Some Fulfils"
  then show "isClosed (run_microtasks (close p))"
    by (rule close_fulfilled)
next
  assume h: "beforeClose p = Some (Rejects r) \<and> awaiting p = []"
  let ?q = "run_microtasks (close p)"
  have q: "?q = p\<lparr>trace := trace p @ [BeforeCloseCalled],
                   animationFrames := animationFrames p @ [RevertClosed]\<rparr>"
    using h by (simp add: close_rejected)
  show "isClosed ?q = isClosed p" "closed ?q = closed p"
    "animationFrames ?q = animationFrames p @ [RevertClosed]"
    "trace ?q = trace p @ [BeforeCloseCalled]"
    by (simp_all add: q)
  have "animationFrames ?q \<noteq> []"
    by (simp add: q)
  from run_animation_frame_reverts [OF this]
  show "\<not> closed (run_animation_frame ?q)"
    "isClosed (run_animation_frame ?q) = (\<not> closed p \<and> isClosed p)"
    by (simp_all add: q)
next
  show "close_resume Fulfils p = (Fulfils, p\<lparr>isClosed := True\<rparr>)"
    by simp
next
  show "close_resume (Rejects r) p =
          (Fulfils, p\<lparr>animationFrames := animationFrames p @ [RevertClosed]\<rparr>)"
    by simp
qed

text \<open>
  C1, at concrete components: setting \<open>closed\<close> on the initial component (no guard) closes
  it; on a component whose guard rejects, the component stays open, \<open>closed\<close> stays true
  until the animation frame and is false after it.
\<close>

theorem close_guard_outcome_witness:
  "isClosed (run_microtasks (set_closed True initial_panel)) \<and>
   \<not> isClosed (run_microtasks (set_closed True vetoing_panel)) \<and>
   closed (run_microtasks (set_closed True vetoing_panel)) \<and>
   \<not> closed (run_animation_frame (run_microtasks (set_closed True vetoing_panel))) \<and>
   \<not> isClosed (run_animation_frame (run_microtasks (set_closed True vetoing_panel)))"
proof -
  have a: "set_closed True initial_panel = close (initial_panel\<lparr>closed := True\<rparr>)"
    by (simp add: set_closed_def toggleDialog_def initial_panel_def)
  have b: "set_closed True vetoing_panel = close (vetoing_panel\<lparr>closed := True\<rparr>)"
    by (simp add: set_closed_def toggleDialog_def vetoing_panel_def initial_panel_def)
  show ?thesis
    using close_guard_outcome [of "initial_panel\<lparr>closed := True\<rparr>" "''''"]
      close_guard_outcome [of "vetoing_panel\<lparr>closed := True\<rparr>" "''unsaved changes''"]
    unfolding a b
    by (simp add: vetoing_panel_def initial_panel_def)
qed

text \<open>
  C2, as stated, fails: on a closable component with a guard, the user's close calls the
  guard before it emits \<open>calcitePanelClose\<close>, for the assignment \<open>this.closed = true\<close> runs
  the watcher, and with it \<open>close\<close> up to its \<open>await\<close>, before \<open>emit\<close> is reached.
\<close>

theorem user_close_emits_before_guard_counterexample:
  "trace (handleUserClose guarded_panel) = [BeforeCloseCalled, Emitted calcitePanelClose] \<and>
   trace (snd (panelKeyDownHandler escape_key guarded_panel)) =
     [BeforeCloseCalled, Emitted calcitePanelClose]"
  by (simp add: guarded_panel_def initial_panel_def escape_key_def panelKeyDownHandler_def
      handleUserClose_def emit_def set_closed_def toggleDialog_def close_def)

text \<open>
  C2, amended: for every user-initiated close (a click on the close action, which is rendered
  when \<open>closable\<close> is true, or Escape when \<open>closable\<close> is true and the event's default is not
  prevented), \<open>closed\<close> is set to true and \<open>calcitePanelClose\<close> is emitted exactly once, as
  the last effect of the handler and whatever the guard is; when it is emitted, the outcome of
  the guard has not been acted on (\<open>isClosed\<close> and the requested animation frames are
  unchanged), and resuming the close afterwards adds no effect. The guard is called before
  the notification, and only when \<open>closed\<close> was false and a guard is set.
\<close>

theorem user_close_emits:
  "closed (handleUserClose p) \<and>
   trace (handleUserClose p) =
     trace p @ (if closed p \<or> beforeClose p = None then [] else [BeforeCloseCalled]) @
     [Emitted calcitePanelClose] \<and>
   isClosed (handleUserClose p) = isClosed p \<and>
   animationFrames (handleUserClose p) = animationFrames p \<and>
   trace (run_microtasks (handleUserClose p)) = trace (handleUserClose p) \<and>
   (closable p \<longrightarrow>
      click IDS_close (fst (render p)) (snd (render p)) =
        run_microtasks (handleUserClose (snd (render p)))) \<and>
   (closable p \<and> key_name event = ''Escape'' \<and> \<not> defaultPrevented event \<longrightarrow>
      keydown event p =
        (event\<lparr>defaultPrevented := True\<rparr>, run_microtasks (handleUserClose p)))"
proof (intro conjI impI)
  show "closed (handleUserClose p)"
    by (simp add: handleUserClose_def emit_def set_closed_def toggleDialog_def close_def
        split: option.splits)
  show "trace (handleUserClose p) =
          trace p @ (if closed p \<or> beforeClose p = None then [] else [BeforeCloseCalled]) @
          [Emitted calcitePanelClose]"
    by (auto simp add: handleUserClose_def emit_def set_closed_def toggleDialog_def close_def
        split: option.splits)
  show "isClosed (handleUserClose p) = isClosed p"
    by (simp add: handleUserClose_def emit_def set_closed_def toggleDialog_def close_def
        split: option.splits)
  show "animationFrames (handleUserClose p) = animationFrames p"
    by (simp add: handleUserClose_def emit_def set_closed_def toggleDialog_def close_def
        split: option.splits)
  show "trace (run_microtasks (handleUserClose p)) = trace (handleUserClose p)"
    by (rule run_microtasks_keeps)
next
  assume "closable p"
  then show "click IDS_close (fst (render p)) (snd (render p)) =
               run_microtasks (handleUserClose (snd (render p)))"
    by (simp add: click_def close_action_rendered)
next
  assume "closable p \<and> key_name event = ''Escape'' \<and> \<not> defaultPrevented event"
  then show "keydown event p =
               (event\<lparr>defaultPrevented := True\<rparr>, run_microtasks (handleUserClose p))"
    by (simp add: keydown_def panelKeyDownHandler_def)
qed

text \<open>
  C2, at concrete components: Escape on a closable component whose guard rejects emits the
  notification, and the component stays open; a click on the close action of a component
  with a fulfilling guard emits it once, after the guard was called.
\<close>

theorem user_close_emits_witness:
  "trace (snd (keydown escape_key (vetoing_panel\<lparr>closable := True\<rparr>))) =
     [BeforeCloseCalled, Emitted calcitePanelClose] \<and>
   \<not> isClosed (snd (keydown escape_key (vetoing_panel\<lparr>closable := True\<rparr>))) \<and>
   trace (click IDS_close (fst (render guarded_panel)) (snd (render guarded_panel))) =
     [BeforeCloseCalled, Emitted calcitePanelClose] \<and>
   closed (click IDS_close (fst (render guarded_panel)) (snd (render guarded_panel)))"
  using user_close_emits [of "vetoing_panel\<lparr>closable := True\<rparr>" escape_key]
    user_close_emits [of guarded_panel escape_key]
    user_close_emits [of "snd (render guarded_panel)" escape_key]
  by (simp add: snd_render vetoing_panel_def guarded_panel_def initial_panel_def escape_key_def
      run_microtasks_keeps run_microtasks_def handleUserClose_def emit_def set_closed_def
      toggleDialog_def close_def)

text \<open>
  C7: given \<open>collapsible = true\<close> and \<open>collapsed = false\<close>, a click on the collapse action
  sets \<open>collapsed\<close> to true and emits \<open>calcitePanelToggle\<close> exactly once: the trace grows by
  that one event.
\<close>

theorem collapse_click_toggles:
  "collapsible p \<Longrightarrow> \<not> collapsed p \<Longrightarrow>
     collapsed (click IDS_collapse (fst (render p)) (snd (render p))) \<and>
     trace (click IDS_collapse (fst (render p)) (snd (render p))) =
       trace p @ [Emitted calcitePanelToggle]"
  by (simp add: click_def collapse_action_rendered run_microtasks_keeps collapse_def emit_def
      snd_render)

text \<open>C7, at the initial component made collapsible.\<close>

theorem collapse_click_toggles_witness:
  "collapsible (initial_panel\<lparr>collapsible := True\<rparr>) \<and>
   \<not> collapsed (initial_panel\<lparr>collapsible := True\<rparr>) \<and>
   collapsed (click IDS_collapse (fst (render (initial_panel\<lparr>collapsible := True\<rparr>)))
                (snd (render (initial_panel\<lparr>collapsible := True\<rparr>)))) \<and>
   trace (click IDS_collapse (fst (render (initial_panel\<lparr>collapsible := True\<rparr>)))
            (snd (render (initial_panel\<lparr>collapsible := True\<rparr>)))) =
     [Emitted calcitePanelToggle]"
proof -
  have h1: "collapsible (initial_panel\<lparr>collapsible := True\<rparr>)"
    by simp
  have h2: "\<not> collapsed (initial_panel\<lparr>collapsible := True\<rparr>)"
    by (simp add: initial_panel_def)
  show ?thesis
    using h1 h2 collapse_click_toggles [OF h1 h2]
    by (simp add: initial_panel_def)
qed

section \<open>Properties of the slot handlers\<close>

lemmas handler_defs =
  handleHeaderActionsStartSlotChange_def handleHeaderActionsEndSlotChange_def
  handleHeaderMenuActionsSlotChange_def handleHeaderContentSlotChange_def
  handleFabSlotChange_def handleFooterActionsSlotChange_def handleFooterEndSlotChange_def
  handleFooterStartSlotChange_def handleFooterSlotChange_def
  contentBottomSlotChangeHandler_def contentTopSlotChangeHandler_def
  slotChangeHasAssignedElement_def slotChangeGetAssignedElements_def

lemma set_layout_apply:
  "set_layout v x d r =
     (if r = x then map_option (\<lambda>e. e\<lparr>layout := Some v\<rparr>) (d r) else d r)"
  by (simp add: set_layout_def split: option.splits)

lemma fold_set_layout:
  "fold (set_layout v) xs d r =
     (if r \<in> set xs then map_option (\<lambda>e. e\<lparr>layout := Some v\<rparr>) (d r) else d r)"
proof (induction xs arbitrary: d)
  case Nil
  show ?case by simp
next
  case (Cons x xs)
  have "fold (set_layout v) (x # xs) d r = fold (set_layout v) xs (set_layout v x d) r"
    by (simp only: fold.simps o_apply)
  also have "\<dots> = (if r \<in> set xs
                   then map_option (\<lambda>e. e\<lparr>layout := Some v\<rparr>) (set_layout v x d r)
                   else set_layout v x d r)"
    by (rule Cons.IH)
  also have "\<dots> = (if r \<in> set (x # xs)
                   then map_option (\<lambda>e. e\<lparr>layout := Some v\<rparr>) (d r) else d r)"
    by (cases "d r") (auto simp add: set_layout_apply)
  finally show ?case .
qed

text \<open>
  C5, as stated, fails for the action-bar region: with a \<open>div\<close> assigned to the action-bar
  slot, the slot has an assigned element and \<open>hasActionBar\<close> is false after the handler.
\<close>

theorem presence_flag_every_region_counterexample:
  "presence_flag SLOTS_actionBar
     (snd (slotchange SLOTS_actionBar div_event (mixed_document, initial_panel))) = Some False \<and>
   slotChangeHasAssignedElement div_event"
  by (simp add: handleActionBarSlotChange_def handler_defs matches_def div_event_def
      mixed_document_def div_el_def)

text \<open>
  C5, amended: for every named optional content region with a presence flag other than the
  action-bar region, after the region's slot-change handler has run the flag equals whether
  the slot has at least one assigned element; every slot-change event sets it again.
\<close>

theorem presence_flag_after_slotchange:
  "s \<noteq> SLOTS_actionBar \<Longrightarrow> s \<noteq> SLOTS_alerts \<Longrightarrow>
     presence_flag s (snd (slotchange s event dp)) = Some (assignedElements event \<noteq> [])"
  by (cases s) (simp_all add: handler_defs)

text \<open>C5, at the fab region: assigning content, then removing it, turns the flag on, then off.\<close>

theorem presence_flag_after_slotchange_witness:
  "SLOTS_fab \<noteq> SLOTS_actionBar \<and> SLOTS_fab \<noteq> SLOTS_alerts \<and>
   presence_flag SLOTS_fab (snd (slotchange SLOTS_fab div_event (mixed_document, initial_panel))) =
     Some True \<and>
   presence_flag SLOTS_fab
     (snd (slotchange SLOTS_fab empty_event
             (slotchange SLOTS_fab div_event (mixed_document, initial_panel)))) = Some False"
proof -
  have h1: "SLOTS_fab \<noteq> SLOTS_actionBar" and h2: "SLOTS_fab \<noteq> SLOTS_alerts"
    by simp_all
  show ?thesis
    using h1 h2
      presence_flag_after_slotchange [OF h1 h2, of div_event "(mixed_document, initial_panel)"]
      presence_flag_after_slotchange [OF h1 h2, of empty_event
        "slotchange SLOTS_fab div_event (mixed_document, initial_panel)"]
    by (simp add: div_event_def empty_event_def)
qed

text \<open>
  C8: on a slot change of the action-bar region, \<open>hasActionBar\<close> is true if and only if an
  assigned element matches \<open>calcite-action-bar\<close>, and nothing else of the component changes;
  every assigned element that matches gets \<open>layout = "horizontal"\<close>; every other element of
  the document, assigned or not, is unchanged.
\<close>

theorem action_bar_slotchange:
  "snd (handleActionBarSlotChange event (d, p)) =
     p\<lparr>hasActionBar :=
         (\<exists>el \<in> set (assignedElements event). matches d el ''calcite-action-bar'')\<rparr> \<and>
   (\<forall>el \<in> set (assignedElements event). matches d el ''calcite-action-bar'' \<longrightarrow>
      fst (handleActionBarSlotChange event (d, p)) el =
        map_option (\<lambda>e. e\<lparr>layout := Some ''horizontal''\<rparr>) (d el)) \<and>
   (\<forall>el. \<not> (el \<in> set (assignedElements event) \<and> matches d el ''calcite-action-bar'') \<longrightarrow>
      fst (handleActionBarSlotChange event (d, p)) el = d el)"
  by (auto simp add: handleActionBarSlotChange_def slotChangeGetAssignedElements_def Let_def
      fold_set_layout filter_empty_conv)

text \<open>
  C8, at a slot holding an action bar and a \<open>div\<close>: the flag is true, the action bar's layout
  is horizontal, the \<open>div\<close> is as it was; with the \<open>div\<close> alone the flag is false.
\<close>

theorem action_bar_slotchange_witness:
  "hasActionBar (snd (handleActionBarSlotChange mixed_event (mixed_document, initial_panel))) \<and>
   fst (handleActionBarSlotChange mixed_event (mixed_document, initial_panel)) 0 =
     Some (action_bar_el\<lparr>layout := Some ''horizontal''\<rparr>) \<and>
   fst (handleActionBarSlotChange mixed_event (mixed_document, initial_panel)) 1 = Some div_el \<and>
   \<not> hasActionBar (snd (handleActionBarSlotChange div_event (mixed_document, initial_panel)))"
  using action_bar_slotchange [of mixed_event mixed_document initial_panel]
    action_bar_slotchange [of div_event mixed_document initial_panel]
  by (simp add: mixed_event_def div_event_def mixed_document_def matches_def action_bar_el_def
      div_el_def)

end
